theory Spec2Isabelle
  imports Main
begin

section \<open>Python values used by the server\<close>

text \<open>
  Python \<^verbatim>\<open>bytes\<close> is a list of 8-bit characters. A Python \<^verbatim>\<open>str\<close> is
  represented by its UTF-8 encoding, so \<^verbatim>\<open>s.encode("utf8")\<close> is the identity and
  \<^verbatim>\<open>b.decode("utf8")\<close> succeeds exactly on well-formed UTF-8.
\<close>

type_synonym bytes = string

datatype error =
    ValueError
  | TypeError
  | AttributeError
  | KeyError
  | IndexError
  | AssertionError
  | AccessDenied
  | InvalidAccessKeyId
  | BackendError

text \<open>\<^verbatim>\<open>UnicodeDecodeError\<close> is a subclass of \<^verbatim>\<open>ValueError\<close> and is reported as such.\<close>

abbreviation nl :: bytes where
  "nl \<equiv> [CHR 0x0A]"

text \<open>\<^verbatim>\<open>sep.join(xs)\<close>\<close>

fun join :: "bytes \<Rightarrow> bytes list \<Rightarrow> bytes" where
  "join sep [] = []"
| "join sep [x] = x"
| "join sep (x # y # ys) = x @ sep @ join sep (y # ys)"

text \<open>\<^verbatim>\<open>s.split(sep)\<close> for a separator of one byte: never the empty list.\<close>

fun split :: "char \<Rightarrow> bytes \<Rightarrow> bytes list" where
  "split sep [] = [[]]"
| "split sep (c # cs) =
     (if c = sep then [] # split sep cs
      else (case split sep cs of
              [] \<Rightarrow> [[c]]
            | w # ws \<Rightarrow> (c # w) # ws))"

text \<open>\<^verbatim>\<open>s.split(sep, 1)\<close>: at most one cut, at the first separator.\<close>

definition split1 :: "char \<Rightarrow> bytes \<Rightarrow> bytes list" where
  "split1 sep s =
     (if sep \<in> set s
      then [takeWhile (\<lambda>c. c \<noteq> sep) s, drop 1 (dropWhile (\<lambda>c. c \<noteq> sep) s)]
      else [s])"

text \<open>\<^verbatim>\<open>s.replace(old, b"")\<close> for \<^verbatim>\<open>old\<close> of one byte.\<close>

definition replace :: "char \<Rightarrow> bytes \<Rightarrow> bytes" where
  "replace old s = filter (\<lambda>c. c \<noteq> old) s"

text \<open>
  Well-formed UTF-8, as the strict decoder of \<^verbatim>\<open>bytes.decode("utf8")\<close> accepts it:
  \<open>utf8_run k lo hi\<close> expects \<open>k\<close> more continuation bytes, the next one within
  \<open>lo..hi\<close>.
\<close>

fun utf8_run :: "nat \<Rightarrow> nat \<Rightarrow> nat \<Rightarrow> bytes \<Rightarrow> bool" where
  "utf8_run k lo hi [] = (k = 0)"
| "utf8_run 0 lo hi (c # cs) =
     (let n = (of_char c :: nat) in
      if n < 128 then utf8_run 0 128 191 cs
      else if 194 \<le> n \<and> n \<le> 223 then utf8_run 1 128 191 cs
      else if n = 224 then utf8_run 2 160 191 cs
      else if (225 \<le> n \<and> n \<le> 236) \<or> n = 238 \<or> n = 239 then utf8_run 2 128 191 cs
      else if n = 237 then utf8_run 2 128 159 cs
      else if n = 240 then utf8_run 3 144 191 cs
      else if 241 \<le> n \<and> n \<le> 243 then utf8_run 3 128 191 cs
      else if n = 244 then utf8_run 3 128 143 cs
      else False)"
| "utf8_run (Suc k) lo hi (c # cs) =
     (lo \<le> (of_char c :: nat) \<and> (of_char c :: nat) \<le> hi \<and> utf8_run k 128 191 cs)"

definition decode_utf8 :: "bytes \<Rightarrow> error + string" where
  "decode_utf8 b = (if utf8_run 0 128 191 b then Inr b else Inl ValueError)"

text \<open>
  \<^verbatim>\<open>bytes.fromhex(s)\<close>: ASCII whitespace is skipped before a pair of hex digits, the
  two digits of a pair are adjacent, anything else raises \<^verbatim>\<open>ValueError\<close> (here
  \<open>None\<close>).
\<close>

definition isspace :: "char \<Rightarrow> bool" where
  "isspace c = ((9 \<le> (of_char c :: nat) \<and> (of_char c :: nat) \<le> 13) \<or> c = CHR '' '')"

definition hexval :: "char \<Rightarrow> nat option" where
  "hexval c =
     (let n = (of_char c :: nat) in
      if 48 \<le> n \<and> n \<le> 57 then Some (n - 48)
      else if 97 \<le> n \<and> n \<le> 102 then Some (n - 87)
      else if 65 \<le> n \<and> n \<le> 70 then Some (n - 55)
      else None)"

fun fromhex :: "bytes \<Rightarrow> bytes option" where
  "fromhex [] = Some []"
| "fromhex [c] = (if isspace c then Some [] else None)"
| "fromhex (c # d # cs) =
     (if isspace c then fromhex (d # cs)
      else (case (hexval c, hexval d) of
              (Some h, Some l) \<Rightarrow> map_option ((#) (char_of (16 * h + l))) (fromhex cs)
            | _ \<Rightarrow> None))"

section \<open>The request and the digests of the standard library\<close>

text \<open>
  What the handlers read of a request: \<open>headers\<close> is the map that
  \<^verbatim>\<open>request.headers.get_first\<close> computes, \<open>stream\<close> the chunks that
  \<^verbatim>\<open>request.stream()\<close> yields.
\<close>

record request =
  http_method :: string
  path :: string
  raw_query :: bytes
  headers :: "bytes \<rightharpoonup> bytes"
  stream :: "bytes list"

text \<open>
  \<^verbatim>\<open>hmac.new(key, msg, sha256).digest()\<close>, \<^verbatim>\<open>sha256(m).hexdigest().encode("utf8")\<close>
  and \<^verbatim>\<open>md5(m).hexdigest()\<close> belong to the standard library; the model takes them
  as parameters.
\<close>

record hashlib =
  hmac_sha256 :: "bytes \<Rightarrow> bytes \<Rightarrow> bytes"
  sha256_hex :: "bytes \<Rightarrow> bytes"
  md5_hex :: "bytes \<Rightarrow> bytes"

section \<open>signature_v4.py\<close>

record SignatureV4 =
  key_id :: bytes
  signature :: bytes
  datestamp :: bytes
  region :: bytes
  signed_headers :: bytes
  amzdate :: "bytes option"
  request :: request

text \<open>\<^verbatim>\<open>SignatureV4.__init__\<close>: the signature is hex-decoded, which may raise.\<close>

definition SignatureV4_init ::
  "bytes \<Rightarrow> bytes \<Rightarrow> bytes \<Rightarrow> bytes \<Rightarrow> bytes \<Rightarrow> bytes option \<Rightarrow> request \<Rightarrow> error + SignatureV4" where
  "SignatureV4_init kid sig ds rg sh ad req =
     (case fromhex sig of
        None \<Rightarrow> Inl ValueError
      | Some raw \<Rightarrow>
          Inr \<lparr>key_id = kid, signature = raw, datestamp = ds, region = rg,
               signed_headers = sh, amzdate = ad, request = req\<rparr>)"

definition SignatureV4_sign :: "hashlib \<Rightarrow> bytes \<Rightarrow> bytes \<Rightarrow> bytes" where
  "SignatureV4_sign lib key msg = hmac_sha256 lib key msg"

text \<open>
  The local \<^verbatim>\<open>canonical_request\<close> of \<^verbatim>\<open>verify\<close>. A signed header that the request
  lacks makes \<^verbatim>\<open>name + b":" + None\<close> raise \<^verbatim>\<open>TypeError\<close>, and so does a missing
  \<^verbatim>\<open>x-amz-content-sha256\<close> inside the outer join.
\<close>

definition canonical_request :: "SignatureV4 \<Rightarrow> error + bytes" where
  "canonical_request self =
     (let req = request self in
      case those (map (\<lambda>name. map_option (\<lambda>v. name @ '':'' @ v) (headers req name))
                      (split (CHR '';'') (signed_headers self))) of
        None \<Rightarrow> Inl TypeError
      | Some lines \<Rightarrow>
          (case headers req ''x-amz-content-sha256'' of
             None \<Rightarrow> Inl TypeError
           | Some content_sha \<Rightarrow>
               Inr (join nl [http_method req, path req, raw_query req, join nl lines, [],
                             signed_headers self, content_sha])))"

text \<open>The local \<^verbatim>\<open>to_sign\<close>; a request without \<^verbatim>\<open>x-amz-date\<close> has \<^verbatim>\<open>amzdate = None\<close>.\<close>

definition to_sign :: "hashlib \<Rightarrow> SignatureV4 \<Rightarrow> bytes \<Rightarrow> error + bytes" where
  "to_sign lib self cr =
     (case amzdate self of
        None \<Rightarrow> Inl TypeError
      | Some ad \<Rightarrow>
          Inr (join nl [''AWS4-HMAC-SHA256'', ad,
                        join ''/'' [datestamp self, region self, ''s3'', ''aws4_request''],
                        sha256_hex lib cr]))"

definition SignatureV4_verify :: "hashlib \<Rightarrow> SignatureV4 \<Rightarrow> string option \<Rightarrow> error + bool" where
  "SignatureV4_verify lib self access_key =
     (case canonical_request self of
        Inl e \<Rightarrow> Inl e
      | Inr cr \<Rightarrow>
          (case to_sign lib self cr of
             Inl e \<Rightarrow> Inl e
           | Inr ts \<Rightarrow>
               (case access_key of
                  None \<Rightarrow> Inl AttributeError
                | Some ak \<Rightarrow>
                    (let key = SignatureV4_sign lib (''AWS'' @ ak) (datestamp self);
                         key = SignatureV4_sign lib key (region self);
                         key = SignatureV4_sign lib key ''s3'';
                         key = SignatureV4_sign lib key ''aws4_request''
                     in Inr (signature self = SignatureV4_sign lib key ts)))))"

text \<open>
  The dict comprehension of \<^verbatim>\<open>parse\<close>: every piece is cut at its first \<^verbatim>\<open>=\<close>; a
  piece without one cannot be unpacked into key and value (\<^verbatim>\<open>ValueError\<close>); a later
  key replaces an earlier one.
\<close>

fun auth_dict_of :: "(string \<rightharpoonup> bytes) \<Rightarrow> bytes list \<Rightarrow> error + (string \<rightharpoonup> bytes)" where
  "auth_dict_of d [] = Inr d"
| "auth_dict_of d (kv # kvs) =
     (case split1 (CHR ''='') kv of
        [key, val] \<Rightarrow>
          (case decode_utf8 key of
             Inl e \<Rightarrow> Inl e
           | Inr k \<Rightarrow> auth_dict_of (d(k \<mapsto> val)) kvs)
      | _ \<Rightarrow> Inl ValueError)"

definition SignatureV4_parse :: "request \<Rightarrow> error + SignatureV4 option" where
  "SignatureV4_parse req =
     (case headers req ''authorization'' of
        None \<Rightarrow> Inr None
      | Some auth_header \<Rightarrow>
          if auth_header = [] then Inr None
          else (case split (CHR '' '') (replace (CHR '','') auth_header) of
                  [] \<Rightarrow> Inl IndexError
                | scheme # auth \<Rightarrow>
                    if scheme \<noteq> ''AWS4-HMAC-SHA256'' then Inr None
                    else (case auth_dict_of Map.empty auth of
                            Inl e \<Rightarrow> Inl e
                          | Inr auth_dict \<Rightarrow>
                              (case (auth_dict ''Credential'', auth_dict ''SignedHeaders'',
                                     auth_dict ''Signature'') of
                                 (Some credential, Some sh, Some sig) \<Rightarrow>
                                   (case split (CHR ''/'') credential of
                                      kid # ds # rg # _ \<Rightarrow>
                                        map_sum id Some
                                          (SignatureV4_init kid sig ds rg sh
                                             (headers req ''x-amz-date'') req)
                                    | _ \<Rightarrow> Inr None)
                               | _ \<Rightarrow> Inr None))))"

section \<open>Collaborators of the router\<close>

text \<open>
  \<^verbatim>\<open>Bucket(name)\<close> and \<^verbatim>\<open>S3Object(bucket, name, size)\<close>; the access check takes
  \<^verbatim>\<open>S3Object | Bucket | None\<close>.
\<close>

datatype Bucket = Bucket string

fun Bucket_name :: "Bucket \<Rightarrow> string" where
  "Bucket_name (Bucket n) = n"

datatype S3Object = S3Object Bucket string int

fun S3Object_name :: "S3Object \<Rightarrow> string" where
  "S3Object_name (S3Object b n s) = n"

datatype target = NoTarget | BucketTarget Bucket | ObjectTarget S3Object

text \<open>
  A write stream is a sink of the backend or the digest decorator around a stream.
  A sink is an object of the backend, told from every other sink by its number; it
  accepts writes until the one, if any, that raises: \<open>BaseWriteStream sid (Some n)\<close>
  accepts \<open>n\<close> more writes.
\<close>

datatype write_stream =
    BaseWriteStream nat "nat option"
  | ETagWriteStream write_stream bytes

text \<open>
  What a handler does to the backend, in order: the calls of the interface with their
  arguments, and the writes that reach a sink, each with the number of the sink.
\<close>

datatype event =
    Call_access_key "string option" target
  | Call_list_buckets "string option"
  | Call_create_bucket "string option" string
  | Call_list_bucket "string option" Bucket
  | Call_read_object S3Object
  | Call_write_object Bucket string
  | Call_create_multipart_upload Bucket string
  | Call_write_object_multipart S3Object nat
  | Call_finish_multipart_upload S3Object
  | Sink_write nat "bytes option"

text \<open>
  The backend, with the arguments that \<^verbatim>\<open>server.py\<close> passes to each method. Within
  one request every method is called at most once, so its answer is a function of the
  arguments. A read stream is the list of the results of its successive \<^verbatim>\<open>read()\<close>
  calls.
\<close>

record BaseInterface =
  access_key :: "string option \<Rightarrow> target \<Rightarrow> error + string option"
  list_buckets :: "string option \<Rightarrow> error + Bucket list"
  create_bucket :: "string option \<Rightarrow> string \<Rightarrow> error + Bucket"
  list_bucket :: "string option \<Rightarrow> Bucket \<Rightarrow> error + S3Object list"
  read_object :: "S3Object \<Rightarrow> error + bytes option list"
  write_object :: "Bucket \<Rightarrow> string \<Rightarrow> error + write_stream"
  create_multipart_upload :: "Bucket \<Rightarrow> string \<Rightarrow> error + S3Object"
  write_object_multipart :: "S3Object \<Rightarrow> nat \<Rightarrow> error + write_stream"
  finish_multipart_upload :: "S3Object \<Rightarrow> error + unit"

text \<open>
  \<^verbatim>\<open>JWTMpNoTs\<close> (\<^verbatim>\<open>jwt_msgpack.py\<close>) is not part of the sources at hand: the router
  is modelled over any \<^verbatim>\<open>encode\<close> and \<^verbatim>\<open>decode\<close>. A payload maps a key to a string
  or to \<^verbatim>\<open>None\<close>; \<^verbatim>\<open>decode\<close> may raise, return \<^verbatim>\<open>None\<close> or return a payload.
\<close>

type_synonym payload = "string \<rightharpoonup> string option"

record JWTMpNoTs =
  encode :: "payload \<Rightarrow> bytes \<Rightarrow> string"
  decode :: "string \<Rightarrow> bytes \<Rightarrow> error + payload option"

text \<open>
  The documents of \<^verbatim>\<open>responses.py\<close> before \<^verbatim>\<open>to_xml()\<close>, and what a handler returns.
\<close>

datatype document =
    ListAllMyBucketsResult "Bucket list" "string option"
  | ListBucketResult Bucket "S3Object list"
  | InitiateMultipartUploadResult S3Object string
  | CompleteMultipartUploadResult S3Object

datatype content = NoContent | StreamedContent bytes "bytes list"

datatype result =
    Xml document
  | Response nat "(bytes \<times> bytes) list" content
  | NoResult

section \<open>Running a handler: result or exception, and the backend events so far\<close>

type_synonym 'a io = "(error + 'a) \<times> event list"

definition ret :: "'a \<Rightarrow> 'a io" where
  "ret x = (Inr x, [])"

definition raise :: "error \<Rightarrow> 'a io" where
  "raise e = (Inl e, [])"

definition lift :: "error + 'a \<Rightarrow> 'a io" where
  "lift r = (r, [])"

definition call :: "event \<Rightarrow> error + 'a \<Rightarrow> 'a io" where
  "call ev r = (r, [ev])"

definition io_bind :: "'a io \<Rightarrow> ('a \<Rightarrow> 'b io) \<Rightarrow> 'b io" where
  "io_bind m f =
     (case m of
        (Inl e, t) \<Rightarrow> (Inl e, t)
      | (Inr x, t) \<Rightarrow> (case f x of (r, t') \<Rightarrow> (r, t @ t')))"

text \<open>\<^verbatim>\<open>assert cond\<close>\<close>

definition assert :: "bool \<Rightarrow> unit io" where
  "assert cond = (if cond then ret () else raise AssertionError)"

section \<open>The digest decorator\<close>

text \<open>
  Modelled from the spec: \<^verbatim>\<open>ETagWriteStream\<close> (\<^verbatim>\<open>etag_stream.py\<close>) is not part of
  the sources at hand. Section 4.5: the decorator wraps a write sink; every chunk passed
  through is also fed into a running hash; on finalize it exposes the hex-encoded
  digest. The second component of \<open>ETagWriteStream\<close> is what the hash has been fed.
\<close>

fun stream_write :: "write_stream \<Rightarrow> bytes option \<Rightarrow> write_stream io" where
  "stream_write (BaseWriteStream sid None) c =
     (Inr (BaseWriteStream sid None), [Sink_write sid c])"
| "stream_write (BaseWriteStream sid (Some 0)) c = (Inl BackendError, [])"
| "stream_write (BaseWriteStream sid (Some (Suc n))) c =
     (Inr (BaseWriteStream sid (Some n)), [Sink_write sid c])"
| "stream_write (ETagWriteStream inner fed) c =
     io_bind (stream_write inner c) (\<lambda>inner'.
       ret (ETagWriteStream inner' (case c of None \<Rightarrow> fed | Some d \<Rightarrow> fed @ d)))"

fun hexdigest :: "hashlib \<Rightarrow> write_stream \<Rightarrow> error + bytes" where
  "hexdigest lib (ETagWriteStream inner fed) = Inr (md5_hex lib fed)"
| "hexdigest lib (BaseWriteStream sid n) = Inl AttributeError"

section \<open>server.py\<close>

text \<open>
  The query dict of \<^verbatim>\<open>_write_object\<close> and \<^verbatim>\<open>_create_multipart\<close>: the raw query is
  cut at every \<^verbatim>\<open>&\<close>, each piece decoded and cut at every \<^verbatim>\<open>=\<close>; a piece that does
  not give exactly a key and a value cannot be unpacked (\<^verbatim>\<open>ValueError\<close>).
\<close>

fun query_of :: "(string \<rightharpoonup> string) \<Rightarrow> bytes list \<Rightarrow> error + (string \<rightharpoonup> string)" where
  "query_of d [] = Inr d"
| "query_of d (kv # kvs) =
     (case decode_utf8 kv of
        Inl e \<Rightarrow> Inl e
      | Inr s \<Rightarrow>
          (case split (CHR ''='') s of
             [k, v] \<Rightarrow> query_of (d(k \<mapsto> v)) kvs
           | _ \<Rightarrow> Inl ValueError))"

definition parse_query :: "bytes \<Rightarrow> error + (string \<rightharpoonup> string)" where
  "parse_query raw = query_of Map.empty (split (CHR ''&'') raw)"

text \<open>
  \<^verbatim>\<open>str.isdigit\<close> and \<^verbatim>\<open>int\<close> on the ASCII digits; the digits of other scripts, which
  \<^verbatim>\<open>isdigit\<close> accepts as well, are not represented.
\<close>

definition isdigit :: "string \<Rightarrow> bool" where
  "isdigit s = (s \<noteq> [] \<and> list_all (\<lambda>c. 48 \<le> (of_char c :: nat) \<and> (of_char c :: nat) \<le> 57) s)"

definition int_of_str :: "string \<Rightarrow> nat" where
  "int_of_str s = foldl (\<lambda>n c. 10 * n + ((of_char c :: nat) - 48)) 0 s"

text \<open>\<^verbatim>\<open>upload_info[key]\<close> on what \<^verbatim>\<open>decode\<close> returned.\<close>

definition getitem :: "payload option \<Rightarrow> string \<Rightarrow> string option io" where
  "getitem upload_info k =
     (case upload_info of
        None \<Rightarrow> raise TypeError
      | Some d \<Rightarrow> (case d k of None \<Rightarrow> raise KeyError | Some v \<Rightarrow> ret v))"

definition S3Server_auth ::
  "hashlib \<Rightarrow> BaseInterface \<Rightarrow> request \<Rightarrow> target \<Rightarrow> string option io" where
  "S3Server_auth lib iface req bucket_or_object =
     io_bind (lift (SignatureV4_parse req)) (\<lambda>state.
     io_bind (lift (case state of
                      None \<Rightarrow> Inr None
                    | Some st \<Rightarrow> map_sum id Some (decode_utf8 (key_id st)))) (\<lambda>kid.
     io_bind (call (Call_access_key kid bucket_or_object)
                   (access_key iface kid bucket_or_object)) (\<lambda>ak.
     io_bind (lift (case state of
                      None \<Rightarrow> Inl AttributeError
                    | Some st \<Rightarrow> SignatureV4_verify lib st ak)) (\<lambda>verified.
     ret kid))))"

definition S3Server_list_buckets :: "hashlib \<Rightarrow> BaseInterface \<Rightarrow> request \<Rightarrow> result io" where
  "S3Server_list_buckets lib iface req =
     io_bind (S3Server_auth lib iface req NoTarget) (\<lambda>kid.
     io_bind (call (Call_list_buckets kid) (list_buckets iface kid)) (\<lambda>buckets.
     ret (Xml (ListAllMyBucketsResult buckets kid))))"

definition S3Server_create_bucket ::
  "hashlib \<Rightarrow> BaseInterface \<Rightarrow> request \<Rightarrow> string \<Rightarrow> result io" where
  "S3Server_create_bucket lib iface req bucket_name =
     io_bind (S3Server_auth lib iface req NoTarget) (\<lambda>kid.
     io_bind (call (Call_create_bucket kid bucket_name)
                   (create_bucket iface kid bucket_name)) (\<lambda>bucket.
     ret (Response 200 [(''Location'', ''/'' @ Bucket_name bucket)] NoContent)))"

definition S3Server_list_bucket ::
  "hashlib \<Rightarrow> BaseInterface \<Rightarrow> request \<Rightarrow> string \<Rightarrow> result io" where
  "S3Server_list_bucket lib iface req bucket_name =
     (let bucket = Bucket bucket_name in
      io_bind (S3Server_auth lib iface req (BucketTarget bucket)) (\<lambda>kid.
      io_bind (call (Call_list_bucket kid bucket) (list_bucket iface kid bucket)) (\<lambda>objects.
      ret (Xml (ListBucketResult bucket objects)))))"

text \<open>
  The generator \<^verbatim>\<open>_provider\<close> of \<^verbatim>\<open>_read_object\<close>: it yields what \<^verbatim>\<open>stream.read()\<close>
  returns until the first \<^verbatim>\<open>None\<close>.
\<close>

fun provider :: "bytes option list \<Rightarrow> bytes list" where
  "provider [] = []"
| "provider (None # rest) = []"
| "provider (Some data # rest) = data # provider rest"

definition S3Server_read_object ::
  "hashlib \<Rightarrow> BaseInterface \<Rightarrow> request \<Rightarrow> string \<Rightarrow> string \<Rightarrow> result io" where
  "S3Server_read_object lib iface req bucket_name object_name =
     (let object0 = S3Object (Bucket bucket_name) object_name 0 in
      io_bind (S3Server_auth lib iface req (ObjectTarget object0)) (\<lambda>kid.
      io_bind (call (Call_read_object object0) (read_object iface object0)) (\<lambda>reads.
      ret (Response 200 [] (StreamedContent ''application/octet-stream'' (provider reads))))))"

text \<open>The loop \<^verbatim>\<open>async for chunk in request.stream()\<close>: an empty chunk is not written.\<close>

fun write_chunks :: "write_stream \<Rightarrow> bytes list \<Rightarrow> write_stream io" where
  "write_chunks s [] = ret s"
| "write_chunks s (chunk # chunks) =
     (if chunk \<noteq> []
      then io_bind (stream_write s (Some chunk)) (\<lambda>s'. write_chunks s' chunks)
      else write_chunks s chunks)"

definition S3Server_write_object ::
  "hashlib \<Rightarrow> JWTMpNoTs \<Rightarrow> BaseInterface \<Rightarrow> request \<Rightarrow> string \<Rightarrow> string \<Rightarrow> result io" where
  "S3Server_write_object lib jwt iface req bucket_name object_name =
     io_bind (lift (parse_query (raw_query req))) (\<lambda>query.
     io_bind (case query ''uploadId'' of
                None \<Rightarrow> ret None
              | Some upload_id \<Rightarrow>
                  io_bind (assert (case query ''partNumber'' of
                                     None \<Rightarrow> False
                                   | Some p \<Rightarrow> isdigit p)) (\<lambda>u.
                  io_bind (lift (decode jwt upload_id ''123456'')) (\<lambda>upload_info.
                  io_bind (getitem upload_info ''bucket'') (\<lambda>b.
                  io_bind (assert (b = Some bucket_name)) (\<lambda>u.
                  io_bind (getitem upload_info ''object'') (\<lambda>ob.
                  io_bind (assert (ob = Some object_name)) (\<lambda>u.
                  ret (Some upload_info)))))))) (\<lambda>upload_info.
     (let bucket = Bucket bucket_name in
      io_bind (S3Server_auth lib iface req (BucketTarget bucket)) (\<lambda>kid.
      io_bind (case upload_info of
                 None \<Rightarrow> ret ()
               | Some info \<Rightarrow>
                   io_bind (getitem info ''key_id'') (\<lambda>k. assert (k = kid))) (\<lambda>u.
      io_bind (case upload_info of
                 None \<Rightarrow> call (Call_write_object bucket object_name)
                              (write_object iface bucket object_name)
               | Some info \<Rightarrow>
                   (let object0 = S3Object bucket object_name 0 in
                    case query ''partNumber'' of
                      None \<Rightarrow> raise KeyError
                    | Some p \<Rightarrow>
                        call (Call_write_object_multipart object0 (int_of_str p))
                             (write_object_multipart iface object0 (int_of_str p)))) (\<lambda>st.
      (let st = (case st of
                   ETagWriteStream inner fed \<Rightarrow> st
                 | BaseWriteStream sid n \<Rightarrow> ETagWriteStream st [])
       in io_bind (write_chunks st (stream req)) (\<lambda>st.
          io_bind (stream_write st None) (\<lambda>st.
          io_bind (lift (hexdigest lib st)) (\<lambda>etag.
          ret (Response 200 [(''ETag'', etag)] NoContent)))))))))))"

definition S3Server_create_multipart ::
  "hashlib \<Rightarrow> JWTMpNoTs \<Rightarrow> BaseInterface \<Rightarrow> request \<Rightarrow> string \<Rightarrow> string \<Rightarrow> result io" where
  "S3Server_create_multipart lib jwt iface req bucket_name object_name =
     io_bind (lift (parse_query (raw_query req))) (\<lambda>query.
     io_bind (assert (\<not> (query ''uploads'' = None \<and> query ''uploadId'' = None))) (\<lambda>u.
     (let bucket = Bucket bucket_name;
          object0 = S3Object bucket object_name 0
      in io_bind (S3Server_auth lib iface req (BucketTarget bucket)) (\<lambda>kid.
         if query ''uploads'' \<noteq> None
         then io_bind (call (Call_create_multipart_upload bucket object_name)
                            (create_multipart_upload iface bucket object_name)) (\<lambda>obj.
              (let upload_id = encode jwt
                     [''bucket'' \<mapsto> Some (Bucket_name bucket),
                      ''object'' \<mapsto> Some (S3Object_name obj),
                      ''key_id'' \<mapsto> kid] ''123456''
               in ret (Xml (InitiateMultipartUploadResult obj upload_id))))
         else (case query ''uploadId'' of
                 None \<Rightarrow> ret NoResult
               | Some upload_id \<Rightarrow>
                   io_bind (lift (decode jwt upload_id ''123456'')) (\<lambda>upload_info.
                   io_bind (getitem upload_info ''bucket'') (\<lambda>b.
                   io_bind (assert (b = Some bucket_name)) (\<lambda>u.
                   io_bind (getitem upload_info ''object'') (\<lambda>ob.
                   io_bind (assert (ob = Some object_name)) (\<lambda>u.
                   io_bind (getitem upload_info ''key_id'') (\<lambda>k.
                   io_bind (assert (k = kid)) (\<lambda>u.
                   io_bind (call (Call_finish_multipart_upload object0)
                                 (finish_multipart_upload iface object0)) (\<lambda>u.
                   ret (Xml (CompleteMultipartUploadResult object0)))))))))))))))"

section \<open>Concrete collaborators and requests\<close>

text \<open>
  For running the model on concrete requests. The digests are stand-ins that keep
  distinct inputs distinct; \<open>test_access_key\<close> is \<^verbatim>\<open>InMemoryInterface.access_key\<close>
  of \<^verbatim>\<open>test/conftest.py\<close>; the other operations of \<open>test_interface\<close> answer as an
  empty in-memory backend does, with the arguments the router passes.
\<close>

definition stand_in_hashlib :: hashlib where
  "stand_in_hashlib =
     \<lparr>hmac_sha256 = (\<lambda>key msg. key @ ''|'' @ msg),
      sha256_hex = (\<lambda>m. m),
      md5_hex = (\<lambda>m. m)\<rparr>"

fun bucket_of :: "target \<Rightarrow> Bucket option" where
  "bucket_of NoTarget = None"
| "bucket_of (BucketTarget b) = Some b"
| "bucket_of (ObjectTarget (S3Object b n s)) = Some b"

definition test_access_key :: "string option \<Rightarrow> target \<Rightarrow> error + string option" where
  "test_access_key kid object0 =
     (if kid = Some ''valid_access'' then Inr (Some ''access_key'')
      else if kid = Some ''valid_no_access'' then Inl AccessDenied
      else if kid = Some ''invalid'' then Inl InvalidAccessKeyId
      else (case bucket_of object0 of
              None \<Rightarrow> Inl AccessDenied
            | Some bucket \<Rightarrow>
                if Bucket_name bucket = ''public'' then Inr None else Inl AccessDenied))"

definition test_interface :: BaseInterface where
  "test_interface =
     \<lparr>access_key = test_access_key,
      list_buckets = (\<lambda>kid. Inr []),
      create_bucket = (\<lambda>kid n. Inr (Bucket n)),
      list_bucket = (\<lambda>kid b. Inr []),
      read_object = (\<lambda>ob. Inr [Some (replicate 16384 (CHR ''a'')), None]),
      write_object = (\<lambda>b n. Inr (BaseWriteStream 1 None)),
      create_multipart_upload = (\<lambda>b n. Inr (S3Object b n 0)),
      write_object_multipart = (\<lambda>ob p. Inr (BaseWriteStream 2 None)),
      finish_multipart_upload = (\<lambda>ob. Inr ())\<rparr>"

text \<open>
  A codec for running the router: the token is the object key, issued to
  \<^verbatim>\<open>valid_access\<close> for the bucket \<^verbatim>\<open>photos\<close>.
\<close>

definition test_jwt :: JWTMpNoTs where
  "test_jwt =
     \<lparr>encode = (\<lambda>p secret. case p ''object'' of Some (Some n) \<Rightarrow> n | _ \<Rightarrow> []),
      decode = (\<lambda>token secret.
         Inr (Some [''bucket'' \<mapsto> Some ''photos'', ''object'' \<mapsto> Some token,
                    ''key_id'' \<mapsto> Some ''valid_access'']))\<rparr>"

text \<open>A request without \<^verbatim>\<open>Authorization\<close> header.\<close>

definition anonymous_request :: request where
  "anonymous_request =
     \<lparr>http_method = ''GET'', path = ''/public/a.txt'', raw_query = [],
      headers = Map.empty, stream = []\<rparr>"

text \<open>
  A request of \<^verbatim>\<open>valid_access\<close> with the signature \<^verbatim>\<open>00\<close>, which is not the one its
  secret gives.
\<close>

definition signed_headers_of :: "bytes \<Rightarrow> bytes \<rightharpoonup> bytes" where
  "signed_headers_of sig =
     [''authorization'' \<mapsto>
        ''AWS4-HMAC-SHA256 Credential=valid_access/20240101/us-east-1/s3/aws4_request, ''
        @ ''SignedHeaders=host;x-amz-date, Signature='' @ sig,
      ''host'' \<mapsto> ''s3server.test'',
      ''x-amz-date'' \<mapsto> ''20240101T000000Z'',
      ''x-amz-content-sha256'' \<mapsto> ''UNSIGNED-PAYLOAD'']"

definition forged_request :: request where
  "forged_request =
     \<lparr>http_method = ''GET'', path = ''/'', raw_query = [],
      headers = signed_headers_of ''00'', stream = []\<rparr>"

text \<open>
  The query string contains the parameter \<open>name\<close>: one of its \<^verbatim>\<open>&\<close>-separated
  pieces has that name before its first \<^verbatim>\<open>=\<close>.
\<close>

definition has_param :: "string \<Rightarrow> bytes \<Rightarrow> bool" where
  "has_param name raw =
     list_ex (\<lambda>kv. takeWhile (\<lambda>c. c \<noteq> CHR ''='') kv = name) (split (CHR ''&'') raw)"



text \<open>Requests of \<^verbatim>\<open>valid_access\<close> on the object \<^verbatim>\<open>/photos/cat.jpg\<close>.\<close>

definition object_request :: "string \<Rightarrow> bytes \<Rightarrow> bytes list \<Rightarrow> request" where
  "object_request m q chunks =
     \<lparr>http_method = m, path = ''/photos/cat.jpg'', raw_query = q,
      headers = signed_headers_of ''00'', stream = chunks\<rparr>"

text \<open>
  What a digest decorator has been fed so far (nothing, for an undecorated sink), and
  the sink of the backend that the writes to a stream end in.
\<close>

fun fed_of :: "write_stream \<Rightarrow> bytes" where
  "fed_of (ETagWriteStream inner fed) = fed"
| "fed_of (BaseWriteStream sid n) = []"

fun sink_of :: "write_stream \<Rightarrow> nat" where
  "sink_of (BaseWriteStream sid n) = sid"
| "sink_of (ETagWriteStream inner fed) = sink_of inner"

text \<open>The stream that the backend handed over at a call that opens one.\<close>

fun handed_over :: "BaseInterface \<Rightarrow> event \<Rightarrow> write_stream option" where
  "handed_over iface (Call_write_object b n) =
     (case write_object iface b n of Inr st \<Rightarrow> Some st | Inl e \<Rightarrow> None)"
| "handed_over iface (Call_write_object_multipart ob p) =
     (case write_object_multipart iface ob p of Inr st \<Rightarrow> Some st | Inl e \<Rightarrow> None)"
| "handed_over iface ev = None"

text \<open>
  A backend as \<open>test_interface\<close>, but its \<^verbatim>\<open>write_object\<close> hands over a decorated sink
  that has digested the bytes \<^verbatim>\<open>junk\<close> already.
\<close>

definition prefed_interface :: BaseInterface where
  "prefed_interface =
     test_interface
       \<lparr>write_object := (\<lambda>b n. Inr (ETagWriteStream (BaseWriteStream 1 None) ''junk''))\<rparr>"

text \<open>
  The exceptions that stand for an error of the S3 protocol are the two of the package,
  \<^verbatim>\<open>AccessDenied\<close> and \<^verbatim>\<open>InvalidAccessKeyId\<close> (\<^verbatim>\<open>test/conftest.py\<close> imports them from it).
  The built-in exceptions of Python do not: \<^verbatim>\<open>server.py\<close> catches none of them and
  registers no handler that would turn one into an error response of the protocol; a
  failure of the backend is opaque.
\<close>

fun protocol_error :: "error \<Rightarrow> bool" where
  "protocol_error AccessDenied = True"
| "protocol_error InvalidAccessKeyId = True"
| "protocol_error e = False"

section \<open>The claims on \<^verbatim>\<open>signature_v4.py\<close>, in the words of the spec\<close>

text \<open>
  The \<^verbatim>\<open>Authorization\<close> header as the spec reads it: the scheme is its first word, the
  words after it are the sub-fields \<^verbatim>\<open>key=value\<close> (commas dropped), a sub-field named
  twice has its last value.
\<close>

definition auth_scheme :: "request \<Rightarrow> bytes option" where
  "auth_scheme req =
     map_option (\<lambda>h. hd (split (CHR '' '') (replace (CHR '','') h))) (headers req ''authorization'')"

definition auth_tokens :: "request \<Rightarrow> bytes list" where
  "auth_tokens req =
     (case headers req ''authorization'' of
        None \<Rightarrow> []
      | Some h \<Rightarrow> tl (split (CHR '' '') (replace (CHR '','') h)))"

definition token_key :: "bytes \<Rightarrow> bytes" where
  "token_key tok = takeWhile (\<lambda>c. c \<noteq> CHR ''='') tok"

definition token_value :: "bytes \<Rightarrow> bytes" where
  "token_value tok = drop 1 (dropWhile (\<lambda>c. c \<noteq> CHR ''='') tok)"

text \<open>A word after the scheme that is not \<^verbatim>\<open>key=value\<close> with a key in UTF-8.\<close>

definition malformed_token :: "bytes \<Rightarrow> bool" where
  "malformed_token tok = (CHR ''='' \<notin> set tok \<or> \<not> utf8_run 0 128 191 (token_key tok))"

definition sub_field :: "string \<Rightarrow> request \<Rightarrow> bytes option" where
  "sub_field name req =
     map_of (rev (map (\<lambda>tok. (token_key tok, token_value tok)) (auth_tokens req))) name"

text \<open>The credential scope cut at every \<^verbatim>\<open>/\<close>.\<close>

definition scope_segments :: "request \<Rightarrow> bytes list" where
  "scope_segments req =
     (case sub_field ''Credential'' req of None \<Rightarrow> [] | Some c \<Rightarrow> split (CHR ''/'') c)"

text \<open>
  When \<^verbatim>\<open>parse\<close> returns absent according to the spec: the header is missing, its scheme
  is not \<^verbatim>\<open>AWS4-HMAC-SHA256\<close>, one of the three sub-fields is missing, or the credential
  scope has fewer than 3 segments.
\<close>

definition parse_absent_condition :: "request \<Rightarrow> bool" where
  "parse_absent_condition req =
     (headers req ''authorization'' = None
      \<or> auth_scheme req \<noteq> Some ''AWS4-HMAC-SHA256''
      \<or> sub_field ''Credential'' req = None
      \<or> sub_field ''SignedHeaders'' req = None
      \<or> sub_field ''Signature'' req = None
      \<or> length (scope_segments req) < 3)"

text \<open>A request of \<^verbatim>\<open>valid_access\<close> whose signature \<^verbatim>\<open>zz\<close> is not hexadecimal.\<close>

definition nonhex_request :: request where
  "nonhex_request =
     \<lparr>http_method = ''GET'', path = ''/'', raw_query = [],
      headers = signed_headers_of ''zz'', stream = []\<rparr>"

text \<open>\<^verbatim>\<open>bytes.lower()\<close>: the ASCII capitals become small letters.\<close>

definition lower :: "bytes \<Rightarrow> bytes" where
  "lower s =
     map (\<lambda>c. if 65 \<le> (of_char c :: nat) \<and> (of_char c :: nat) \<le> 90
              then char_of ((of_char c :: nat) + 32) else c) s"

text \<open>
  The signature that the spec describes. The canonical request is, each on its own line:
  method, path, raw query, one line \<^verbatim>\<open>name:value\<close> per signed header in list order, a
  blank line, the signed-header list, the value of \<^verbatim>\<open>x-amz-content-sha256\<close>. \<open>nm\<close> is
  what is done to a header name before it is written on its line: \<open>lower\<close> in the spec.
  The string to sign is, each on its own line: the algorithm tag, the timestamp, the
  credential scope, the hex SHA-256 of the canonical request. The key comes from the
  chain of four HMACs.
\<close>

definition spec_canonical_request :: "(bytes \<Rightarrow> bytes) \<Rightarrow> SignatureV4 \<Rightarrow> bytes" where
  "spec_canonical_request nm self =
     (let req = request self in
      http_method req @ nl @ path req @ nl @ raw_query req @ nl
      @ join nl (map (\<lambda>name. nm name @ '':'' @ the (headers req name))
                     (split (CHR '';'') (signed_headers self)))
      @ nl @ nl @ signed_headers self @ nl @ the (headers req ''x-amz-content-sha256''))"

definition spec_to_sign :: "hashlib \<Rightarrow> (bytes \<Rightarrow> bytes) \<Rightarrow> SignatureV4 \<Rightarrow> bytes" where
  "spec_to_sign lib nm self =
     ''AWS4-HMAC-SHA256'' @ nl @ the (amzdate self) @ nl
     @ datestamp self @ ''/'' @ region self @ ''/s3/aws4_request'' @ nl
     @ sha256_hex lib (spec_canonical_request nm self)"

definition spec_signature :: "hashlib \<Rightarrow> (bytes \<Rightarrow> bytes) \<Rightarrow> SignatureV4 \<Rightarrow> string \<Rightarrow> bytes" where
  "spec_signature lib nm self secret =
     (let key0 = hmac_sha256 lib (''AWS'' @ secret) (datestamp self);
          key1 = hmac_sha256 lib key0 (region self);
          key2 = hmac_sha256 lib key1 ''s3'';
          key3 = hmac_sha256 lib key2 ''aws4_request''
      in hmac_sha256 lib key3 (spec_to_sign lib nm self))"

text \<open>
  The request carries every signed header, \<^verbatim>\<open>x-amz-content-sha256\<close> and, when it was
  parsed, \<^verbatim>\<open>x-amz-date\<close>.
\<close>

definition headers_present :: "SignatureV4 \<Rightarrow> bool" where
  "headers_present self =
     (list_all (\<lambda>name. headers (request self) name \<noteq> None)
               (split (CHR '';'') (signed_headers self))
      \<and> headers (request self) ''x-amz-content-sha256'' \<noteq> None
      \<and> amzdate self \<noteq> None)"

text \<open>
  A signing context whose signed-header list names \<^verbatim>\<open>Host\<close> with a capital; the lookup
  of a header does not depend on the case of its name.
\<close>

definition capital_context :: "bytes \<Rightarrow> SignatureV4" where
  "capital_context sig =
     \<lparr>key_id = ''valid_access'', signature = sig, datestamp = ''20240101'',
      region = ''us-east-1'', signed_headers = ''Host'',
      amzdate = Some ''20240101T000000Z'',
      request = \<lparr>http_method = ''GET'', path = ''/'', raw_query = [],
                 headers = [''Host'' \<mapsto> ''s3server.test'', ''host'' \<mapsto> ''s3server.test'',
                            ''x-amz-content-sha256'' \<mapsto> ''UNSIGNED-PAYLOAD''],
                 stream = []\<rparr>\<rparr>"

section \<open>The read stream of \<^verbatim>\<open>test/conftest.py\<close>\<close>







section \<open>Running a handler: basic facts\<close>

lemma io_bind_Inl [simp]: "io_bind (Inl e, t) f = (Inl e, t)"
  by (simp add: io_bind_def)

lemma io_bind_Inr [simp]: "io_bind (Inr x, t) f = (fst (f x), t @ snd (f x))"
  by (simp add: io_bind_def split: prod.splits)

lemma io_bind_ret [simp]: "io_bind (ret x) f = f x"
  by (simp add: ret_def)

lemma io_bind_raise [simp]: "io_bind (raise e) f = raise e"
  by (simp add: raise_def)

lemma io_bind_lift_Inl [simp]: "io_bind (lift (Inl e)) f = raise e"
  by (simp add: lift_def raise_def)

lemma io_bind_lift_Inr [simp]: "io_bind (lift (Inr x)) f = f x"
  by (simp add: lift_def)

lemma fst_io_bind:
  "fst (io_bind m f) = (case fst m of Inl e \<Rightarrow> Inl e | Inr x \<Rightarrow> fst (f x))"
  by (cases m) (auto simp: io_bind_def split: sum.splits prod.splits)

lemma snd_io_bind:
  "snd (io_bind m f) = (case fst m of Inl e \<Rightarrow> snd m | Inr x \<Rightarrow> snd m @ snd (f x))"
  by (cases m) (auto simp: io_bind_def split: sum.splits prod.splits)

lemma parse_no_header: "headers req ''authorization'' = None \<Longrightarrow> SignatureV4_parse req = Inr None"
  by (simp add: SignatureV4_parse_def)

lemma auth_anon:
  assumes "headers req ''authorization'' = None"
  shows "S3Server_auth lib iface req tgt =
     ((case access_key iface None tgt of Inl e \<Rightarrow> Inl e | Inr ak \<Rightarrow> Inl AttributeError),
      [Call_access_key None tgt])"
  using assms
  by (simp add: S3Server_auth_def parse_no_header call_def raise_def split: sum.splits)

section \<open>Authentication in the router\<close>

lemma forged_parse:
  "SignatureV4_parse forged_request =
     Inr (Some \<lparr>key_id = ''valid_access'', signature = [CHR 0x00], datestamp = ''20240101'',
                region = ''us-east-1'', signed_headers = ''host;x-amz-date'',
                amzdate = Some ''20240101T000000Z'', request = forged_request\<rparr>)"
  by (simp add: SignatureV4_parse_def forged_request_def signed_headers_of_def replace_def
      split1_def decode_utf8_def SignatureV4_init_def isspace_def hexval_def char_of_def)

lemma forged_verify:
  "SignatureV4_verify stand_in_hashlib
     \<lparr>key_id = ''valid_access'', signature = [CHR 0x00], datestamp = ''20240101'',
                region = ''us-east-1'', signed_headers = ''host;x-amz-date'',
                amzdate = Some ''20240101T000000Z'', request = forged_request\<rparr>
     (Some ''access_key'') = Inr False"
  by (simp add: SignatureV4_verify_def canonical_request_def to_sign_def SignatureV4_sign_def
      stand_in_hashlib_def forged_request_def signed_headers_of_def)

text \<open>
  Claim C1 asks that a request whose signature verification returns false is rejected
  before any backend operation. \<^verbatim>\<open>_auth\<close> calls \<^verbatim>\<open>state.verify(access_key)\<close> and drops
  the boolean: when the verification returns \<^verbatim>\<open>False\<close>, \<^verbatim>\<open>_list_buckets\<close> still calls
  the backend's \<^verbatim>\<open>list_buckets\<close> and answers with the listing.
\<close>

theorem failed_verification_not_enforced:
  assumes "SignatureV4_parse req = Inr (Some st)"
    and "decode_utf8 (key_id st) = Inr kid"
    and "access_key iface (Some kid) NoTarget = Inr ak"
    and "SignatureV4_verify lib st ak = Inr False"
  shows "S3Server_list_buckets lib iface req =
           (map_sum id (\<lambda>buckets. Xml (ListAllMyBucketsResult buckets (Some kid)))
              (list_buckets iface (Some kid)),
            [Call_access_key (Some kid) NoTarget, Call_list_buckets (Some kid)])"
  using assms
  by (cases "list_buckets iface (Some kid)")
     (simp_all add: S3Server_list_buckets_def S3Server_auth_def call_def ret_def)

theorem failed_verification_not_enforced_witness:
  "SignatureV4_verify stand_in_hashlib
     \<lparr>key_id = ''valid_access'', signature = [CHR 0x00], datestamp = ''20240101'',
      region = ''us-east-1'', signed_headers = ''host;x-amz-date'',
      amzdate = Some ''20240101T000000Z'', request = forged_request\<rparr>
     (Some ''access_key'') = Inr False
   \<and> S3Server_list_buckets stand_in_hashlib test_interface forged_request =
       (Inr (Xml (ListAllMyBucketsResult [] (Some ''valid_access''))),
        [Call_access_key (Some ''valid_access'') NoTarget,
         Call_list_buckets (Some ''valid_access'')])"
proof -
  have d: "decode_utf8 ''valid_access'' = Inr ''valid_access''"
    by (simp add: decode_utf8_def)
  have a: "access_key test_interface (Some ''valid_access'') NoTarget = Inr (Some ''access_key'')"
    by (simp add: test_interface_def test_access_key_def)
  have l: "list_buckets test_interface (Some ''valid_access'') = Inr []"
    by (simp add: test_interface_def)
  show ?thesis
    using failed_verification_not_enforced [OF forged_parse _ a forged_verify] d l forged_verify
    by simp
qed

text \<open>
  Claim C6 asks that a request without \<^verbatim>\<open>Authorization\<close> header proceeds as anonymous
  when the backend grants public access. In \<^verbatim>\<open>_auth\<close> the state is \<^verbatim>\<open>None\<close> then, the
  access check is asked with the identity \<^verbatim>\<open>None\<close>, and when it grants access
  \<^verbatim>\<open>state.verify\<close> raises \<^verbatim>\<open>AttributeError\<close>: the read of a public object stops there,
  before \<^verbatim>\<open>read_object\<close>.
\<close>

theorem anonymous_request_stops_in_auth:
  assumes "headers req ''authorization'' = None"
    and "access_key iface None (ObjectTarget (S3Object (Bucket bucket_name) object_name 0)) = Inr ak"
  shows "S3Server_auth lib iface req tgt =
           ((case access_key iface None tgt of Inl e \<Rightarrow> Inl e | Inr k \<Rightarrow> Inl AttributeError),
            [Call_access_key None tgt])
       \<and> S3Server_read_object lib iface req bucket_name object_name =
           (Inl AttributeError,
            [Call_access_key None (ObjectTarget (S3Object (Bucket bucket_name) object_name 0))])"
  using assms
  by (simp add: S3Server_read_object_def auth_anon raise_def)

theorem anonymous_request_stops_in_auth_witness:
  "headers anonymous_request ''authorization'' = None
   \<and> access_key test_interface None (ObjectTarget (S3Object (Bucket ''public'') ''a.txt'' 0))
       = Inr None
   \<and> S3Server_read_object stand_in_hashlib test_interface anonymous_request ''public'' ''a.txt'' =
       (Inl AttributeError,
        [Call_access_key None (ObjectTarget (S3Object (Bucket ''public'') ''a.txt'' 0))])"
proof -
  have h: "headers anonymous_request ''authorization'' = None"
    by (simp add: anonymous_request_def)
  have a: "access_key test_interface None (ObjectTarget (S3Object (Bucket ''public'') ''a.txt'' 0))
             = Inr None"
    by (simp add: test_interface_def test_access_key_def)
  show ?thesis
    using anonymous_request_stops_in_auth [OF h a] h a by simp
qed

section \<open>The query string\<close>

lemma split_not_Nil [simp]: "split sep s \<noteq> []"
  by (induction s) (auto split: list.splits)

lemma hd_split: "hd (split sep s) = takeWhile (\<lambda>c. c \<noteq> sep) s"
  by (induction s) (auto split: list.splits)

lemma split_pair_key: "split sep s = [k, v] \<Longrightarrow> k = takeWhile (\<lambda>c. c \<noteq> sep) s"
  using hd_split [of sep s] by simp

lemma decode_utf8_Inr: "decode_utf8 b = Inr s \<Longrightarrow> s = b"
  by (simp add: decode_utf8_def split: if_splits)

lemma decode_utf8_Inl: "decode_utf8 b = Inl e \<Longrightarrow> e = ValueError"
  by (simp add: decode_utf8_def split: if_splits)

lemma query_of_error: "query_of d kvs = Inl e \<Longrightarrow> e = ValueError"
  by (induction kvs arbitrary: d)
     (auto split: sum.splits list.splits dest: decode_utf8_Inl)

lemma query_of_keys:
  "query_of d kvs = Inr q \<Longrightarrow>
   (q name \<noteq> None) = (d name \<noteq> None \<or> list_ex (\<lambda>kv. takeWhile (\<lambda>c. c \<noteq> CHR ''='') kv = name) kvs)"
proof (induction kvs arbitrary: d)
  case Nil
  then show ?case by simp
next
  case (Cons kv kvs)
  from Cons.prems obtain s k v where s: "decode_utf8 kv = Inr s"
    and kv: "split (CHR ''='') s = [k, v]"
    and rest: "query_of (d(k \<mapsto> v)) kvs = Inr q"
    by (auto split: sum.splits list.splits)
  have k: "k = takeWhile (\<lambda>c. c \<noteq> CHR ''='') kv"
    using split_pair_key [OF kv] decode_utf8_Inr [OF s] by simp
  show ?case
    using Cons.IH [OF rest] k by auto
qed

lemma parse_query_keys:
  "parse_query raw = Inr q \<Longrightarrow> (q name \<noteq> None) = has_param name raw"
  using query_of_keys [of Map.empty "split (CHR ''&'') raw" q name]
  by (simp add: parse_query_def has_param_def)

lemma parse_query_error: "parse_query raw = Inl e \<Longrightarrow> e = ValueError"
  by (auto simp: parse_query_def dest: query_of_error)

section \<open>Multipart dispatch\<close>

text \<open>
  Claim C9 says that a POST object request whose query string contains neither the
  \<^verbatim>\<open>uploads\<close> nor the \<^verbatim>\<open>uploadId\<close> parameter is answered with the error response of the
  protocol error \<^verbatim>\<open>MalformedMultipartRequest\<close>. The request
  \<^verbatim>\<open>POST /photos/cat.jpg?versionId=1\<close> ends in the \<^verbatim>\<open>AssertionError\<close> of \<^verbatim>\<open>assert False\<close>,
  which is no error of the protocol.
\<close>

theorem post_without_parameter_assertion_error:
  "\<not> has_param ''uploads'' (raw_query (object_request ''POST'' ''versionId=1'' []))
   \<and> \<not> has_param ''uploadId'' (raw_query (object_request ''POST'' ''versionId=1'' []))
   \<and> S3Server_create_multipart stand_in_hashlib test_jwt test_interface
        (object_request ''POST'' ''versionId=1'' []) ''photos'' ''cat.jpg''
       = (Inl AssertionError, [])
   \<and> \<not> protocol_error AssertionError"
  by (simp add: S3Server_create_multipart_def has_param_def object_request_def parse_query_def
      decode_utf8_def assert_def raise_def)

text \<open>
  Claim C9, amended: a POST object request whose query string contains neither the
  \<^verbatim>\<open>uploads\<close> nor the \<^verbatim>\<open>uploadId\<close> parameter ends in an exception that leaves the
  handler, with no backend operation invoked: the \<^verbatim>\<open>AssertionError\<close> of \<^verbatim>\<open>assert False\<close>,
  or before it the \<^verbatim>\<open>ValueError\<close> of a query string that cannot be unpacked into keys
  and values; either way the handler raises before \<^verbatim>\<open>_auth\<close>.
\<close>

theorem post_without_multipart_parameter_rejected:
  assumes "\<not> has_param ''uploads'' (raw_query req)"
    and "\<not> has_param ''uploadId'' (raw_query req)"
  shows "S3Server_create_multipart lib jwt iface req bucket_name object_name = (Inl AssertionError, [])
       \<or> S3Server_create_multipart lib jwt iface req bucket_name object_name = (Inl ValueError, [])"
proof (cases "parse_query (raw_query req)")
  case (Inl e)
  then show ?thesis
    using parse_query_error [OF Inl]
    by (simp add: S3Server_create_multipart_def raise_def)
next
  case (Inr q)
  have "q ''uploads'' = None" and "q ''uploadId'' = None"
    using assms parse_query_keys [OF Inr, of "''uploads''"]
      parse_query_keys [OF Inr, of "''uploadId''"] by auto
  then show ?thesis
    using Inr by (simp add: S3Server_create_multipart_def assert_def raise_def)
qed

theorem post_without_multipart_parameter_rejected_witness:
  "\<not> has_param ''uploads'' (raw_query (object_request ''POST'' ''partNumber=1'' []))
   \<and> \<not> has_param ''uploadId'' (raw_query (object_request ''POST'' ''partNumber=1'' []))
   \<and> S3Server_create_multipart stand_in_hashlib test_jwt test_interface
        (object_request ''POST'' ''partNumber=1'' []) ''photos'' ''cat.jpg''
       = (Inl AssertionError, [])"
proof -
  have u: "\<not> has_param ''uploads'' (raw_query (object_request ''POST'' ''partNumber=1'' []))"
    by (simp add: has_param_def object_request_def)
  have i: "\<not> has_param ''uploadId'' (raw_query (object_request ''POST'' ''partNumber=1'' []))"
    by (simp add: has_param_def object_request_def)
  have r: "S3Server_create_multipart stand_in_hashlib test_jwt test_interface
        (object_request ''POST'' ''partNumber=1'' []) ''photos'' ''cat.jpg''
       \<noteq> (Inl ValueError, [])"
    by (simp add: S3Server_create_multipart_def object_request_def parse_query_def
        decode_utf8_def assert_def raise_def)
  show ?thesis
    using post_without_multipart_parameter_rejected [OF u i] u i r by blast
qed


lemma signed_parse:
  "headers req = signed_headers_of ''00'' \<Longrightarrow>
   SignatureV4_parse req =
     Inr (Some \<lparr>key_id = ''valid_access'', signature = [CHR 0x00], datestamp = ''20240101'',
                region = ''us-east-1'', signed_headers = ''host;x-amz-date'',
                amzdate = Some ''20240101T000000Z'', request = req\<rparr>)"
  by (simp add: SignatureV4_parse_def signed_headers_of_def replace_def
      split1_def decode_utf8_def SignatureV4_init_def isspace_def hexval_def char_of_def)

lemma signed_verify:
  "headers req = signed_headers_of ''00'' \<Longrightarrow>
   \<exists>b. SignatureV4_verify lib
     \<lparr>key_id = ''valid_access'', signature = [CHR 0x00], datestamp = ''20240101'',
      region = ''us-east-1'', signed_headers = ''host;x-amz-date'',
      amzdate = Some ''20240101T000000Z'', request = req\<rparr> (Some ak) = Inr b"
  by (simp add: SignatureV4_verify_def canonical_request_def to_sign_def signed_headers_of_def)

lemma signed_auth:
  assumes "headers req = signed_headers_of ''00''"
  shows "S3Server_auth lib test_interface req tgt =
           (Inr (Some ''valid_access''), [Call_access_key (Some ''valid_access'') tgt])"
proof -
  obtain b where "SignatureV4_verify lib
     \<lparr>key_id = ''valid_access'', signature = [CHR 0x00], datestamp = ''20240101'',
      region = ''us-east-1'', signed_headers = ''host;x-amz-date'',
      amzdate = Some ''20240101T000000Z'', request = req\<rparr> (Some ''access_key'') = Inr b"
    using signed_verify [OF assms] by blast
  then show ?thesis
    by (simp add: S3Server_auth_def signed_parse [OF assms] decode_utf8_def
        test_interface_def test_access_key_def call_def ret_def)
qed






section \<open>Writing an object\<close>

lemma stream_write_ok:
  "stream_write s c = (Inr s', t) \<Longrightarrow>
   t = [Sink_write (sink_of s) c] \<and> sink_of s' = sink_of s
   \<and> (case s of
        ETagWriteStream inner fed \<Rightarrow>
          (\<exists>inner'. s' = ETagWriteStream inner' (fed @ (case c of None \<Rightarrow> [] | Some d \<Rightarrow> d)))
      | BaseWriteStream sid n \<Rightarrow> True)"
proof (induction s c arbitrary: s' t rule: stream_write.induct)
  case (4 inner fed c)
  obtain r t0 where w: "stream_write inner c = (r, t0)"
    by (cases "stream_write inner c")
  with "4.prems" obtain inner' where r: "r = Inr inner'"
    by (cases r) (auto simp: ret_def)
  with w "4.prems" have "t = t0" "s' = ETagWriteStream inner' (case c of None \<Rightarrow> fed | Some d \<Rightarrow> fed @ d)"
    by (auto simp: ret_def)
  moreover have "t0 = [Sink_write (sink_of inner) c] \<and> sink_of inner' = sink_of inner"
    using "4.IH" [of inner' t0] w r by simp
  ultimately show ?case
    by (auto split: option.splits)
qed auto

lemma write_chunks_ok:
  "write_chunks (ETagWriteStream inner fed) chunks = (Inr s', t) \<Longrightarrow>
   t = map (\<lambda>c. Sink_write (sink_of inner) (Some c)) (filter (\<lambda>c. c \<noteq> []) chunks)
   \<and> (\<exists>inner'. s' = ETagWriteStream inner' (fed @ concat chunks)
                \<and> sink_of inner' = sink_of inner)"
proof (induction chunks arbitrary: inner fed s' t)
  case Nil
  then show ?case by (auto simp: ret_def)
next
  case (Cons chunk chunks)
  show ?case
  proof (cases "chunk = []")
    case True
    then show ?thesis
      using Cons.IH [of inner fed s' t] Cons.prems by simp
  next
    case False
    obtain r t0 where w: "stream_write (ETagWriteStream inner fed) (Some chunk) = (r, t0)"
      by (cases "stream_write (ETagWriteStream inner fed) (Some chunk)")
    with Cons.prems False obtain s1 where r: "r = Inr s1"
      by (cases r) auto
    from stream_write_ok [of "ETagWriteStream inner fed" "Some chunk" s1 t0] w r
    obtain inner1 where t0: "t0 = [Sink_write (sink_of inner) (Some chunk)]"
      and s1: "s1 = ETagWriteStream inner1 (fed @ chunk)"
      and i1: "sink_of inner1 = sink_of inner"
      by auto
    obtain r2 t2 where w2: "write_chunks (ETagWriteStream inner1 (fed @ chunk)) chunks = (r2, t2)"
      by (cases "write_chunks (ETagWriteStream inner1 (fed @ chunk)) chunks")
    from Cons.prems False w r s1 w2 have "r2 = Inr s'" "t = t0 @ t2"
      by auto
    with Cons.IH [of inner1 "fed @ chunk" s' t2] w2 t0 i1 False show ?thesis
      by auto
  qed
qed

lemma concat_nonempty: "concat (filter (\<lambda>c. c \<noteq> []) chunks) = concat chunks"
  by (induction chunks) auto

lemma io_bind_InrE:
  assumes "io_bind m f = (Inr y, t)"
  obtains x t1 t2 where "m = (Inr x, t1)" and "f x = (Inr y, t2)" and "t = t1 @ t2"
  using assms
  by (cases m; cases "fst m") (auto simp: io_bind_def split: prod.splits)

lemma block_no_events:
  "(case query ''uploadId'' of
                None \<Rightarrow> ret None
              | Some upload_id \<Rightarrow>
                  io_bind (assert (case query ''partNumber'' of
                                     None \<Rightarrow> False
                                   | Some p \<Rightarrow> isdigit p)) (\<lambda>u.
                  io_bind (lift (decode jwt upload_id ''123456'')) (\<lambda>upload_info.
                  io_bind (getitem upload_info ''bucket'') (\<lambda>b.
                  io_bind (assert (b = Some bucket_name)) (\<lambda>u.
                  io_bind (getitem upload_info ''object'') (\<lambda>ob.
                  io_bind (assert (ob = Some object_name)) (\<lambda>u.
                  ret (Some upload_info)))))))) = (r, t) \<Longrightarrow> t = []"
  by (auto simp: assert_def getitem_def ret_def raise_def lift_def io_bind_def
      split: option.splits sum.splits if_splits prod.splits)

lemma signed_auth_any:
  assumes "headers req = signed_headers_of ''00''"
    and "access_key iface = test_access_key"
  shows "S3Server_auth lib iface req tgt =
           (Inr (Some ''valid_access''), [Call_access_key (Some ''valid_access'') tgt])"
proof -
  obtain b where "SignatureV4_verify lib
     \<lparr>key_id = ''valid_access'', signature = [CHR 0x00], datestamp = ''20240101'',
      region = ''us-east-1'', signed_headers = ''host;x-amz-date'',
      amzdate = Some ''20240101T000000Z'', request = req\<rparr> (Some ''access_key'') = Inr b"
    using signed_verify [OF assms(1)] by blast
  then show ?thesis
    by (simp add: S3Server_auth_def signed_parse [OF assms(1)] decode_utf8_def
        assms(2) test_access_key_def call_def ret_def)
qed

lemma object_request_simps [simp]:
  "raw_query (object_request m q chunks) = q"
  "stream (object_request m q chunks) = chunks"
  by (simp_all add: object_request_def)

lemma part_request_query:
  "parse_query ''partNumber=1&uploadId=cat.jpg'' =
     Inr [''partNumber'' \<mapsto> ''1'', ''uploadId'' \<mapsto> ''cat.jpg'']"
  by (simp add: parse_query_def decode_utf8_def)

lemma plain_request_query:
  "parse_query ''x-id=PutObject'' = Inr [''x-id'' \<mapsto> ''PutObject'']"
  by (simp add: parse_query_def decode_utf8_def)

lemma part_request_headers:
  "headers (object_request m q chunks) = signed_headers_of ''00''"
  by (simp add: object_request_def)

lemma test_interface_simps:
  "write_object test_interface b n = Inr (BaseWriteStream 1 None)"
  "write_object_multipart test_interface ob p = Inr (BaseWriteStream 2 None)"
  "create_multipart_upload test_interface b n = Inr (S3Object b n 0)"
  "read_object test_interface ob = Inr [Some (replicate 16384 (CHR ''a'')), None]"
  "list_buckets test_interface kid = Inr []"
  by (simp_all add: test_interface_def)

lemma prefed_interface_simps:
  "write_object prefed_interface b n = Inr (ETagWriteStream (BaseWriteStream 1 None) ''junk'')"
  "access_key prefed_interface = test_access_key"
  by (simp_all add: prefed_interface_def test_interface_def)

lemma stand_in_md5 [simp]: "md5_hex stand_in_hashlib m = m"
  by (simp add: stand_in_hashlib_def)

lemma part_request_run:
  "S3Server_write_object stand_in_hashlib test_jwt test_interface
     (object_request ''PUT'' ''partNumber=1&uploadId=cat.jpg'' [''ab'', [], ''cd''])
     ''photos'' ''cat.jpg'' =
   (Inr (Response 200 [(''ETag'', ''abcd'')] NoContent),
    [Call_access_key (Some ''valid_access'') (BucketTarget (Bucket ''photos'')),
     Call_write_object_multipart (S3Object (Bucket ''photos'') ''cat.jpg'' 0) 1,
     Sink_write 2 (Some ''ab''), Sink_write 2 (Some ''cd''), Sink_write 2 None])"
  by (simp add: S3Server_write_object_def part_request_query
      signed_auth [OF part_request_headers] test_jwt_def test_interface_simps
      assert_def getitem_def isdigit_def int_of_str_def lift_def ret_def call_def Let_def)

lemma plain_request_run:
  "S3Server_write_object stand_in_hashlib test_jwt test_interface
     (object_request ''PUT'' ''x-id=PutObject'' [''ab'', [], ''cd''])
     ''photos'' ''cat.jpg'' =
   (Inr (Response 200 [(''ETag'', ''abcd'')] NoContent),
    [Call_access_key (Some ''valid_access'') (BucketTarget (Bucket ''photos'')),
     Call_write_object (Bucket ''photos'') ''cat.jpg'',
     Sink_write 1 (Some ''ab''), Sink_write 1 (Some ''cd''), Sink_write 1 None])"
  by (simp add: S3Server_write_object_def plain_request_query
      signed_auth [OF part_request_headers] test_interface_simps
      lift_def ret_def call_def Let_def)

text \<open>
  Claim C5 says that a write-object request that completes has pushed the request body
  to the backend write sink, the end-of-data marker once after it, and answers 200 with
  the hex digest of the full body as \<^verbatim>\<open>ETag\<close>. On a backend that hands over a decorated
  sink which has digested the bytes \<^verbatim>\<open>junk\<close> before, the request \<^verbatim>\<open>PUT /photos/cat.jpg\<close>
  with the body \<^verbatim>\<open>abcd\<close> answers with the digest of \<^verbatim>\<open>junkabcd\<close>, not that of
  the body.
\<close>

theorem prefed_sink_etag_not_of_body:
  "S3Server_write_object stand_in_hashlib test_jwt prefed_interface
     (object_request ''PUT'' ''x-id=PutObject'' [''ab'', ''cd'']) ''photos'' ''cat.jpg'' =
   (Inr (Response 200 [(''ETag'', md5_hex stand_in_hashlib ''junkabcd'')] NoContent),
    [Call_access_key (Some ''valid_access'') (BucketTarget (Bucket ''photos'')),
     Call_write_object (Bucket ''photos'') ''cat.jpg'',
     Sink_write 1 (Some ''ab''), Sink_write 1 (Some ''cd''), Sink_write 1 None])
   \<and> md5_hex stand_in_hashlib ''junkabcd'' \<noteq> md5_hex stand_in_hashlib (concat [''ab'', ''cd''])"
  by (simp add: S3Server_write_object_def plain_request_query
      signed_auth_any [OF part_request_headers prefed_interface_simps(2)]
      prefed_interface_simps(1) lift_def ret_def call_def Let_def)

text \<open>
  Claim C5, amended: a write-object request, single-part or part of a multipart upload,
  that completes has called the backend once for a stream (\<^verbatim>\<open>write_object\<close> or
  \<^verbatim>\<open>write_object_multipart\<close>, after \<^verbatim>\<open>_auth\<close>) and then written, to the sink of the very
  stream the backend handed over and to no other, the non-empty chunks of the request
  body in order and the end-of-data marker \<^verbatim>\<open>None\<close> once, last; the chunks written
  concatenate to the request body; the response is a 200 whose \<^verbatim>\<open>ETag\<close> header is the
  hex digest of what the decorator has been fed: what a decorated sink had digested
  when the backend handed it over (nothing for an undecorated sink, which the router
  wraps first), followed by the full body.
\<close>

theorem write_object_forwards_body:
  assumes ok: "S3Server_write_object lib jwt iface req bucket_name object_name = (Inr resp, t)"
  shows "\<exists>ev st0.
           t = snd (S3Server_auth lib iface req (BucketTarget (Bucket bucket_name)))
               @ ev # map (Sink_write (sink_of st0))
                          (map Some (filter (\<lambda>c. c \<noteq> []) (stream req)) @ [None])
         \<and> (ev = Call_write_object (Bucket bucket_name) object_name
            \<or> (\<exists>p. ev = Call_write_object_multipart
                          (S3Object (Bucket bucket_name) object_name 0) p))
         \<and> handed_over iface ev = Some st0
         \<and> concat (filter (\<lambda>c. c \<noteq> []) (stream req)) = concat (stream req)
         \<and> resp = Response 200
                     [(''ETag'', md5_hex lib (fed_of st0 @ concat (stream req)))] NoContent"
proof -
  let ?R = "S3Server_write_object lib jwt iface req bucket_name object_name"
  let ?tail = "\<lambda>st0. (let st = (case st0 of
                   ETagWriteStream inner fed \<Rightarrow> st0
                 | BaseWriteStream sid n \<Rightarrow> ETagWriteStream st0 [])
       in io_bind (write_chunks st (stream req)) (\<lambda>st.
          io_bind (stream_write st None) (\<lambda>st.
          io_bind (lift (hexdigest lib st)) (\<lambda>etag.
          ret (Response 200 [(''ETag'', etag)] NoContent)))))"
  have tail: "t' = map (Sink_write (sink_of st0))
                     (map Some (filter (\<lambda>c. c \<noteq> []) (stream req)) @ [None])
       \<and> resp' = Response 200
                    [(''ETag'', md5_hex lib (fed_of st0 @ concat (stream req)))] NoContent"
    if tl: "?tail st0 = (Inr resp', t')" for st0 resp' t'
  proof -
    obtain inner where st: "(case st0 of
                   ETagWriteStream inner fed \<Rightarrow> st0
                 | BaseWriteStream sid n \<Rightarrow> ETagWriteStream st0 [])
                 = ETagWriteStream inner (fed_of st0)"
      and si: "sink_of inner = sink_of st0"
      by (cases st0) auto
    obtain r1 t1 where w1: "write_chunks (ETagWriteStream inner (fed_of st0)) (stream req) = (r1, t1)"
      by (cases "write_chunks (ETagWriteStream inner (fed_of st0)) (stream req)")
    with tl st obtain s1 where r1: "r1 = Inr s1"
      by (cases r1) (auto simp: Let_def)
    from write_chunks_ok [of inner "fed_of st0" "stream req" s1 t1] w1 r1 si
    obtain inner1 where
          t1: "t1 = map (\<lambda>c. Sink_write (sink_of st0) (Some c))
                        (filter (\<lambda>c. c \<noteq> []) (stream req))"
      and s1: "s1 = ETagWriteStream inner1 (fed_of st0 @ concat (stream req))"
      and i1: "sink_of inner1 = sink_of st0"
      by auto
    obtain r2 t2 where w2: "stream_write s1 None = (r2, t2)"
      by (cases "stream_write s1 None")
    with tl st w1 r1 obtain s2 where r2: "r2 = Inr s2"
      by (cases r2) (auto simp: Let_def)
    from stream_write_ok [of s1 None s2 t2] w2 r2 s1 i1
    obtain inner2 where t2: "t2 = [Sink_write (sink_of st0) None]"
      and s2: "s2 = ETagWriteStream inner2 (fed_of st0 @ concat (stream req))"
      by auto
    show ?thesis
      using tl st w1 r1 w2 r2 t1 t2 s2
      by (auto simp: Let_def lift_def ret_def)
  qed
  from ok obtain query ta tb where
      q: "lift (parse_query (raw_query req)) = (Inr query, ta)"
    and rest1: "io_bind (case query ''uploadId'' of
                None \<Rightarrow> ret None
              | Some upload_id \<Rightarrow>
                  io_bind (assert (case query ''partNumber'' of
                                     None \<Rightarrow> False
                                   | Some p \<Rightarrow> isdigit p)) (\<lambda>u.
                  io_bind (lift (decode jwt upload_id ''123456'')) (\<lambda>upload_info.
                  io_bind (getitem upload_info ''bucket'') (\<lambda>b.
                  io_bind (assert (b = Some bucket_name)) (\<lambda>u.
                  io_bind (getitem upload_info ''object'') (\<lambda>ob.
                  io_bind (assert (ob = Some object_name)) (\<lambda>u.
                  ret (Some upload_info)))))))) (\<lambda>upload_info.
     (let bucket = Bucket bucket_name in
      io_bind (S3Server_auth lib iface req (BucketTarget bucket)) (\<lambda>kid.
      io_bind (case upload_info of
                 None \<Rightarrow> ret ()
               | Some info \<Rightarrow>
                   io_bind (getitem info ''key_id'') (\<lambda>k. assert (k = kid))) (\<lambda>u.
      io_bind (case upload_info of
                 None \<Rightarrow> call (Call_write_object bucket object_name)
                              (write_object iface bucket object_name)
               | Some info \<Rightarrow>
                   (let object0 = S3Object bucket object_name 0 in
                    case query ''partNumber'' of
                      None \<Rightarrow> raise KeyError
                    | Some p \<Rightarrow>
                        call (Call_write_object_multipart object0 (int_of_str p))
                             (write_object_multipart iface object0 (int_of_str p)))) ?tail)))) = (Inr resp, tb)"
    and t: "t = ta @ tb"
    unfolding S3Server_write_object_def by (rule io_bind_InrE)
  have ta: "ta = []" using q by (simp add: lift_def)
  from rest1 obtain upload_info tc td where
      blk: "(case query ''uploadId'' of
                None \<Rightarrow> ret None
              | Some upload_id \<Rightarrow>
                  io_bind (assert (case query ''partNumber'' of
                                     None \<Rightarrow> False
                                   | Some p \<Rightarrow> isdigit p)) (\<lambda>u.
                  io_bind (lift (decode jwt upload_id ''123456'')) (\<lambda>upload_info.
                  io_bind (getitem upload_info ''bucket'') (\<lambda>b.
                  io_bind (assert (b = Some bucket_name)) (\<lambda>u.
                  io_bind (getitem upload_info ''object'') (\<lambda>ob.
                  io_bind (assert (ob = Some object_name)) (\<lambda>u.
                  ret (Some upload_info)))))))) = (Inr upload_info, tc)"
    and rest2: "io_bind (S3Server_auth lib iface req (BucketTarget (Bucket bucket_name))) (\<lambda>kid.
      io_bind (case upload_info of
                 None \<Rightarrow> ret ()
               | Some info \<Rightarrow>
                   io_bind (getitem info ''key_id'') (\<lambda>k. assert (k = kid))) (\<lambda>u.
      io_bind (case upload_info of
                 None \<Rightarrow> call (Call_write_object (Bucket bucket_name) object_name)
                              (write_object iface (Bucket bucket_name) object_name)
               | Some info \<Rightarrow>
                   (let object0 = S3Object (Bucket bucket_name) object_name 0 in
                    case query ''partNumber'' of
                      None \<Rightarrow> raise KeyError
                    | Some p \<Rightarrow>
                        call (Call_write_object_multipart object0 (int_of_str p))
                             (write_object_multipart iface object0 (int_of_str p)))) ?tail)) = (Inr resp, td)"
    and tb: "tb = tc @ td"
    by (rule io_bind_InrE) (simp add: Let_def)
  have tc: "tc = []" using block_no_events [OF blk] .
  from rest2 obtain kid te tf where
      au: "S3Server_auth lib iface req (BucketTarget (Bucket bucket_name)) = (Inr kid, te)"
    and rest3: "io_bind (case upload_info of
                 None \<Rightarrow> ret ()
               | Some info \<Rightarrow>
                   io_bind (getitem info ''key_id'') (\<lambda>k. assert (k = kid))) (\<lambda>u.
      io_bind (case upload_info of
                 None \<Rightarrow> call (Call_write_object (Bucket bucket_name) object_name)
                              (write_object iface (Bucket bucket_name) object_name)
               | Some info \<Rightarrow>
                   (let object0 = S3Object (Bucket bucket_name) object_name 0 in
                    case query ''partNumber'' of
                      None \<Rightarrow> raise KeyError
                    | Some p \<Rightarrow>
                        call (Call_write_object_multipart object0 (int_of_str p))
                             (write_object_multipart iface object0 (int_of_str p)))) ?tail) = (Inr resp, tf)"
    and td: "td = te @ tf"
    by (rule io_bind_InrE)
  have te: "te = snd (S3Server_auth lib iface req (BucketTarget (Bucket bucket_name)))"
    using au by simp
  from rest3 obtain tg th where
      chk: "(case upload_info of
                 None \<Rightarrow> ret ()
               | Some info \<Rightarrow>
                   io_bind (getitem info ''key_id'') (\<lambda>k. assert (k = kid))) = (Inr (), tg)"
    and rest4: "io_bind (case upload_info of
                 None \<Rightarrow> call (Call_write_object (Bucket bucket_name) object_name)
                              (write_object iface (Bucket bucket_name) object_name)
               | Some info \<Rightarrow>
                   (let object0 = S3Object (Bucket bucket_name) object_name 0 in
                    case query ''partNumber'' of
                      None \<Rightarrow> raise KeyError
                    | Some p \<Rightarrow>
                        call (Call_write_object_multipart object0 (int_of_str p))
                             (write_object_multipart iface object0 (int_of_str p)))) ?tail = (Inr resp, th)"
    and tf: "tf = tg @ th"
    by (rule io_bind_InrE) simp
  have tg: "tg = []"
    using chk
    by (auto simp: assert_def getitem_def ret_def raise_def io_bind_def
        split: option.splits if_splits prod.splits sum.splits)
  from rest4 obtain st0 ti tj where
      opn: "(case upload_info of
                 None \<Rightarrow> call (Call_write_object (Bucket bucket_name) object_name)
                              (write_object iface (Bucket bucket_name) object_name)
               | Some info \<Rightarrow>
                   (let object0 = S3Object (Bucket bucket_name) object_name 0 in
                    case query ''partNumber'' of
                      None \<Rightarrow> raise KeyError
                    | Some p \<Rightarrow>
                        call (Call_write_object_multipart object0 (int_of_str p))
                             (write_object_multipart iface object0 (int_of_str p)))) = (Inr st0, ti)"
    and tl: "?tail st0 = (Inr resp, tj)"
    and th: "th = ti @ tj"
    by (rule io_bind_InrE)
  have ti: "ti = [Call_write_object (Bucket bucket_name) object_name]
             \<or> (\<exists>p. ti = [Call_write_object_multipart
                              (S3Object (Bucket bucket_name) object_name 0) p])"
    and ho: "\<forall>ev. ti = [ev] \<longrightarrow> handed_over iface ev = Some st0"
    using opn
    by (auto simp: call_def raise_def Let_def split: option.splits)
  then obtain ev where ev: "ti = [ev]"
    and ev': "ev = Call_write_object (Bucket bucket_name) object_name
              \<or> (\<exists>p. ev = Call_write_object_multipart
                            (S3Object (Bucket bucket_name) object_name 0) p)"
    by auto
  have "t = snd (S3Server_auth lib iface req (BucketTarget (Bucket bucket_name)))
              @ ev # map (Sink_write (sink_of st0))
                         (map Some (filter (\<lambda>c. c \<noteq> []) (stream req)) @ [None])"
    using tail [OF tl] t ta tb tc td te tf tg th ev by simp
  then show ?thesis
    using tail [OF tl] ev ev' ho concat_nonempty [of "stream req"] by blast
qed

theorem write_object_forwards_body_witness:
  "S3Server_write_object stand_in_hashlib test_jwt test_interface
       (object_request ''PUT'' ''partNumber=1&uploadId=cat.jpg'' [''ab'', [], ''cd''])
       ''photos'' ''cat.jpg'' =
     (Inr (Response 200 [(''ETag'', ''abcd'')] NoContent),
      [Call_access_key (Some ''valid_access'') (BucketTarget (Bucket ''photos'')),
       Call_write_object_multipart (S3Object (Bucket ''photos'') ''cat.jpg'' 0) 1,
       Sink_write 2 (Some ''ab''), Sink_write 2 (Some ''cd''), Sink_write 2 None])
   \<and> handed_over test_interface
         (Call_write_object_multipart (S3Object (Bucket ''photos'') ''cat.jpg'' 0) 1) =
       Some (BaseWriteStream 2 None)
   \<and> S3Server_write_object stand_in_hashlib test_jwt test_interface
       (object_request ''PUT'' ''x-id=PutObject'' [''ab'', [], ''cd''])
       ''photos'' ''cat.jpg'' =
     (Inr (Response 200 [(''ETag'', ''abcd'')] NoContent),
      [Call_access_key (Some ''valid_access'') (BucketTarget (Bucket ''photos'')),
       Call_write_object (Bucket ''photos'') ''cat.jpg'',
       Sink_write 1 (Some ''ab''), Sink_write 1 (Some ''cd''), Sink_write 1 None])
   \<and> handed_over test_interface (Call_write_object (Bucket ''photos'') ''cat.jpg'') =
       Some (BaseWriteStream 1 None)
   \<and> md5_hex stand_in_hashlib (fed_of (BaseWriteStream 1 None) @ concat [''ab'', [], ''cd''])
       = ''abcd''"
  using write_object_forwards_body [OF part_request_run]
    write_object_forwards_body [OF plain_request_run]
    part_request_run plain_request_run
  by (simp add: test_interface_simps)




section \<open>Parsing the \<^verbatim>\<open>Authorization\<close> header\<close>

lemma auth_dict_of_tokens:
  "auth_dict_of d toks =
     (if list_ex malformed_token toks then Inl ValueError
      else Inr (\<lambda>k. case map_of (rev (map (\<lambda>tok. (token_key tok, token_value tok)) toks)) k of
                      Some v \<Rightarrow> Some v
                    | None \<Rightarrow> d k))"
proof (induction toks arbitrary: d)
  case Nil
  then show ?case by simp
next
  case (Cons tok toks)
  show ?case
  proof (cases "malformed_token tok")
    case True
    then show ?thesis
      by (auto simp: malformed_token_def token_key_def split1_def decode_utf8_def)
  next
    case False
    then have s: "split1 (CHR ''='') tok = [token_key tok, token_value tok]"
      and u: "decode_utf8 (token_key tok) = Inr (token_key tok)"
      by (auto simp: malformed_token_def token_key_def token_value_def split1_def decode_utf8_def)
    have "auth_dict_of d (tok # toks) = auth_dict_of (d(token_key tok \<mapsto> token_value tok)) toks"
      using s u by simp
    then show ?thesis
      using False Cons.IH [of "d(token_key tok \<mapsto> token_value tok)"]
      by (auto simp: fun_eq_iff map_add_def split: option.splits)
  qed
qed

lemma case_list_hd_tl: "xs \<noteq> [] \<Longrightarrow> (case xs of [] \<Rightarrow> a | y # ys \<Rightarrow> f y ys) = f (hd xs) (tl xs)"
  by (cases xs) simp_all

lemma case_three:
  "(case xs of a # b # c # r \<Rightarrow> f a b c | _ \<Rightarrow> g) =
     (if length xs < 3 then g else f (xs ! 0) (xs ! 1) (xs ! 2))"
  by (cases xs; cases "tl xs"; cases "tl (tl xs)") auto

text \<open>
  Claim C7 says that \<^verbatim>\<open>SignatureV4.parse\<close> returns absent exactly when the header is
  missing, the scheme is wrong, a sub-field is missing or the credential scope has fewer
  than 3 segments, and a signing context for every other request. For a request whose
  \<^verbatim>\<open>Signature\<close> is \<^verbatim>\<open>zz\<close> none of the four holds, and \<^verbatim>\<open>parse\<close> raises \<^verbatim>\<open>ValueError\<close>.
\<close>

theorem parse_raises_on_signature:
  "\<not> parse_absent_condition nonhex_request
   \<and> SignatureV4_parse nonhex_request = Inl ValueError"
  by (simp add: parse_absent_condition_def nonhex_request_def signed_headers_of_def
      auth_scheme_def sub_field_def auth_tokens_def token_key_def token_value_def
      scope_segments_def replace_def SignatureV4_parse_def split1_def decode_utf8_def
      SignatureV4_init_def isspace_def hexval_def)

text \<open>
  Claim C7, amended: \<^verbatim>\<open>SignatureV4.parse\<close> returns absent when the header is missing or
  its scheme is not \<^verbatim>\<open>AWS4-HMAC-SHA256\<close>; otherwise it raises \<^verbatim>\<open>ValueError\<close> when a word
  after the scheme is not \<^verbatim>\<open>key=value\<close> with a key in UTF-8; otherwise it returns absent
  when one of \<^verbatim>\<open>Credential\<close>, \<^verbatim>\<open>SignedHeaders\<close>, \<^verbatim>\<open>Signature\<close> is missing or the
  credential scope has fewer than 3 segments; otherwise it raises \<^verbatim>\<open>ValueError\<close> when
  the signature is not hexadecimal; for every other request it returns the signing
  context with key id, date stamp and region from the first three segments of the scope,
  the signed-header list, the decoded signature and the timestamp of \<^verbatim>\<open>x-amz-date\<close>.
\<close>

theorem parse_outcome:
  "SignatureV4_parse req =
     (if headers req ''authorization'' = None \<or> auth_scheme req \<noteq> Some ''AWS4-HMAC-SHA256''
      then Inr None
      else if list_ex malformed_token (auth_tokens req) then Inl ValueError
      else if sub_field ''Credential'' req = None \<or> sub_field ''SignedHeaders'' req = None
              \<or> sub_field ''Signature'' req = None \<or> length (scope_segments req) < 3
      then Inr None
      else (case fromhex (the (sub_field ''Signature'' req)) of
              None \<Rightarrow> Inl ValueError
            | Some raw \<Rightarrow>
                Inr (Some \<lparr>key_id = scope_segments req ! 0, signature = raw,
                           datestamp = scope_segments req ! 1, region = scope_segments req ! 2,
                           signed_headers = the (sub_field ''SignedHeaders'' req),
                           amzdate = headers req ''x-amz-date'', request = req\<rparr>)))"
proof (cases "headers req ''authorization''")
  case None
  then show ?thesis by (simp add: SignatureV4_parse_def)
next
  case (Some h)
  let ?ws = "split (CHR '' '') (replace (CHR '','') h)"
  have sch: "auth_scheme req = Some (hd ?ws)" and tok: "auth_tokens req = tl ?ws"
    using Some by (simp_all add: auth_scheme_def auth_tokens_def)
  show ?thesis
  proof (cases "h = []")
    case True
    then show ?thesis
      using Some by (simp add: SignatureV4_parse_def auth_scheme_def replace_def)
  next
    case False
    have p: "SignatureV4_parse req =
      (if hd ?ws \<noteq> ''AWS4-HMAC-SHA256'' then Inr None
                    else (case auth_dict_of Map.empty (tl ?ws) of
                            Inl e \<Rightarrow> Inl e
                          | Inr auth_dict \<Rightarrow>
                              (case (auth_dict ''Credential'', auth_dict ''SignedHeaders'',
                                     auth_dict ''Signature'') of
                                 (Some credential, Some sh, Some sig) \<Rightarrow>
                                   (case split (CHR ''/'') credential of
                                      kid # ds # rg # _ \<Rightarrow>
                                        map_sum id Some
                                          (SignatureV4_init kid sig ds rg sh
                                             (headers req ''x-amz-date'') req)
                                    | _ \<Rightarrow> Inr None)
                               | _ \<Rightarrow> Inr None)))"
      using Some False
      by (simp add: SignatureV4_parse_def case_list_hd_tl [of ?ws])
    show ?thesis
    proof (cases "hd ?ws \<noteq> ''AWS4-HMAC-SHA256'' \<or> list_ex malformed_token (tl ?ws)")
      case True
      then show ?thesis
        using Some sch tok p by (auto simp: auth_dict_of_tokens)
    next
      case ok: False
      have f: "sub_field name req = map_of (rev (map (\<lambda>tok. (token_key tok, token_value tok)) (tl ?ws))) name" for name
        by (simp add: sub_field_def tok)
      show ?thesis
        using Some sch tok p ok
        by (auto simp: auth_dict_of_tokens f [symmetric] scope_segments_def case_three
            SignatureV4_init_def split: option.splits)
    qed
  qed
qed

theorem parse_outcome_witness:
  "\<not> parse_absent_condition forged_request
   \<and> \<not> list_ex malformed_token (auth_tokens forged_request)
   \<and> SignatureV4_parse forged_request =
       Inr (Some \<lparr>key_id = ''valid_access'', signature = [CHR 0x00], datestamp = ''20240101'',
                  region = ''us-east-1'', signed_headers = ''host;x-amz-date'',
                  amzdate = Some ''20240101T000000Z'', request = forged_request\<rparr>)
   \<and> parse_absent_condition anonymous_request
   \<and> SignatureV4_parse anonymous_request = Inr None"
  using parse_outcome [of forged_request] parse_outcome [of anonymous_request]
  by (simp add: parse_absent_condition_def forged_request_def anonymous_request_def
      signed_headers_of_def auth_scheme_def sub_field_def auth_tokens_def token_key_def
      token_value_def malformed_token_def scope_segments_def replace_def
      isspace_def hexval_def char_of_def)

section \<open>Verifying a signature\<close>

lemma those_map:
  "those (map f xs) = (if list_all (\<lambda>x. f x \<noteq> None) xs then Some (map (\<lambda>x. the (f x)) xs) else None)"
  by (induction xs) (auto split: option.splits)

lemma lower_Host: "lower ''Host'' = ''host''"
  by (simp add: lower_def char_of_def bit_iff_odd)

text \<open>
  Claim C2 says that \<^verbatim>\<open>verify\<close> returns true if and only if the signature of the
  request is the one of the spec, whose canonical request has a lower-cased name on the
  line of each signed header. For the signed-header list \<^verbatim>\<open>Host\<close> and the signature that
  the spec gives, \<^verbatim>\<open>verify\<close> returns false.
\<close>

theorem capital_header_name_not_lowered:
  "signature (capital_context (spec_signature stand_in_hashlib lower (capital_context []) ''access_key''))
     = spec_signature stand_in_hashlib lower
         (capital_context (spec_signature stand_in_hashlib lower (capital_context []) ''access_key''))
         ''access_key''
   \<and> SignatureV4_verify stand_in_hashlib
        (capital_context (spec_signature stand_in_hashlib lower (capital_context []) ''access_key''))
        (Some ''access_key'') = Inr False"
  by (simp add: capital_context_def spec_signature_def spec_to_sign_def spec_canonical_request_def
      stand_in_hashlib_def lower_Host SignatureV4_verify_def canonical_request_def to_sign_def
      SignatureV4_sign_def Let_def)

text \<open>
  Claim C2, amended: for every signing context and secret, when the request carries every
  signed header, \<^verbatim>\<open>x-amz-content-sha256\<close> and \<^verbatim>\<open>x-amz-date\<close>, \<^verbatim>\<open>verify\<close> returns true
  if and only if the signature of the request is the HMAC, under the key of the
  four-step chain, of the string to sign of the spec, with the canonical request of the
  spec except that each header name is written on its line as the signed-header list has
  it; when one of these headers is missing, \<^verbatim>\<open>verify\<close> raises \<^verbatim>\<open>TypeError\<close>.
\<close>

theorem verify_outcome:
  "SignatureV4_verify lib self (Some secret) =
     (if headers_present self
      then Inr (signature self = spec_signature lib (\<lambda>name. name) self secret)
      else Inl TypeError)"
proof -
  let ?f = "\<lambda>name. map_option (\<lambda>v. name @ '':'' @ v) (headers (request self) name)"
  have l: "list_all (\<lambda>x. ?f x \<noteq> None) xs = list_all (\<lambda>name. headers (request self) name \<noteq> None) xs" for xs
    by (induction xs) auto
  have m: "list_all (\<lambda>name. headers (request self) name \<noteq> None) xs \<Longrightarrow>
           map (\<lambda>x. the (?f x)) xs = map (\<lambda>name. name @ '':'' @ the (headers (request self) name)) xs" for xs
    by (induction xs) auto
  show ?thesis
  proof (cases "headers_present self")
    case False
    then show ?thesis
      by (auto simp: SignatureV4_verify_def canonical_request_def to_sign_def those_map l
          headers_present_def Let_def split: option.splits sum.splits)
  next
    case True
    then obtain sha ad where sha: "headers (request self) ''x-amz-content-sha256'' = Some sha"
      and ad: "amzdate self = Some ad"
      and al: "list_all (\<lambda>name. headers (request self) name \<noteq> None)
                 (split (CHR '';'') (signed_headers self))"
      by (auto simp: headers_present_def)
    show ?thesis
      using True sha ad al m [OF al]
      by (simp add: SignatureV4_verify_def canonical_request_def to_sign_def those_map l
          Let_def spec_signature_def spec_to_sign_def spec_canonical_request_def
          SignatureV4_sign_def cong: map_cong)
  qed
qed

theorem verify_outcome_witness:
  "headers_present (capital_context (spec_signature stand_in_hashlib (\<lambda>name. name) (capital_context []) ''access_key''))
   \<and> SignatureV4_verify stand_in_hashlib
        (capital_context (spec_signature stand_in_hashlib (\<lambda>name. name) (capital_context []) ''access_key''))
        (Some ''access_key'') = Inr True
   \<and> \<not> headers_present ((capital_context []) \<lparr>signed_headers := ''range''\<rparr>)
   \<and> SignatureV4_verify stand_in_hashlib ((capital_context []) \<lparr>signed_headers := ''range''\<rparr>)
        (Some ''access_key'') = Inl TypeError"
  using verify_outcome [of stand_in_hashlib
      "capital_context (spec_signature stand_in_hashlib (\<lambda>name. name) (capital_context []) ''access_key'')"
      "''access_key''"]
    verify_outcome [of stand_in_hashlib "(capital_context []) \<lparr>signed_headers := ''range''\<rparr>"
      "''access_key''"]
  by (simp add: headers_present_def capital_context_def spec_signature_def spec_to_sign_def
      spec_canonical_request_def Let_def)

section \<open>Reading an object\<close>













end
